theory Spec2Isabelle
  imports Complex_Main
begin

section \<open>Python values, exceptions and text formatting\<close>

text \<open>
  The two modules verified here are \<^verbatim>\<open>mitxgraders/helpers/specify_domain.py\<close> (the
  decorator that checks the shapes of a function's arguments) and
  \<^verbatim>\<open>graders/sampling.py\<close> (the sampling sets). Python exceptions are values of a
  sum type, \<open>Inl\<close> carrying the exception.

  A MathArray is a numpy array: its shape tuple and its components in row-major order.
  The class lives in \<^verbatim>\<open>mitxgraders/helpers/math_array.py\<close>, which is outside the
  sources at hand.
\<close>

datatype 'n matharray = MathArray (shape: "nat list") (flat: "'n list")

text \<open>
  The objects a wrapped function can be called with: a \<^verbatim>\<open>Number\<close>, a MathArray, or
  anything else, of which only the class name (\<^verbatim>\<open>obj.__class__.__name__\<close>) is ever read.
\<close>

datatype 'n pyobj = Num 'n | Arr "'n matharray" | Other string

text \<open>
  What \<^verbatim>\<open>specify_domain.py\<close> imports from \<^verbatim>\<open>math_array.py\<close> and from numpy is a
  parameter of the model:
  \<^item> \<open>is_scalar_matharray\<close>, the predicate that recognises the arrays standing for a
    single number (on an object that is not a MathArray it is false: the docstring of
    \<^verbatim>\<open>number_validator\<close> rejects a list as "a list");
  \<^item> \<open>item\<close>, numpy's \<^verbatim>\<open>ndarray.item()\<close>, read only on arrays that
    \<open>is_scalar_matharray\<close> accepts, where it returns the single component;
  \<^item> \<open>MathArray_get_description\<close>, the static method
    \<^verbatim>\<open>MathArray.get_description(shape)\<close>. The property \<^verbatim>\<open>obj.description\<close> of an
    array is this description of its own shape, as the docstrings of
    \<^verbatim>\<open>get_description\<close> and \<^verbatim>\<open>make_shape_validator\<close> show.
\<close>

record 'n math_array =
  is_scalar_matharray :: "'n matharray \<Rightarrow> bool"
  item :: "'n matharray \<Rightarrow> 'n"
  MathArray_get_description :: "nat list \<Rightarrow> string"

definition description :: "'n math_array \<Rightarrow> 'n matharray \<Rightarrow> string" where
  "description M a = MathArray_get_description M (shape a)"

text \<open>voluptuous' \<^verbatim>\<open>Invalid\<close>, with its \<^verbatim>\<open>error_message\<close>.\<close>

datatype invalid = Invalid (error_message: string)

text \<open>The exceptions that leave the two modules.\<close>

datatype error = DomainError string | ConfigError string | ValueError | IndexError

text \<open>\<^verbatim>\<open>'{0}'.format(n)\<close> for a natural number: its decimal digits.\<close>

definition digit_char :: "nat \<Rightarrow> char" where
  "digit_char d = ''0123456789'' ! d"

fun str :: "nat \<Rightarrow> string" where
  "str n = (if n < 10 then [digit_char n] else str (n div 10) @ [digit_char (n mod 10)])"

declare str.simps [simp del]

text \<open>\<^verbatim>\<open>sep.join(lines)\<close>.\<close>

fun join :: "string \<Rightarrow> string list \<Rightarrow> string" where
  "join sep [] = []"
| "join sep [x] = x"
| "join sep (x # y # ys) = x @ sep @ join sep (y # ys)"

definition newline :: char where
  "newline = CHR 0x0A"

definition tab :: char where
  "tab = CHR 0x09"

section \<open>specify\_domain.py\<close>

text \<open>
  \<^verbatim>\<open>first_three = {1: '1st', 2: '2nd', 3: '3rd'}
  return first_three.get(n, '{0}th'.format(n))\<close>
\<close>

definition low_ordinal :: "nat \<Rightarrow> string" where
  "low_ordinal n =
     (let first_three = [1 \<mapsto> ''1st'', 2 \<mapsto> ''2nd'', 3 \<mapsto> ''3rd'']
      in case first_three n of Some s \<Rightarrow> s | None \<Rightarrow> str n @ ''th'')"

definition get_description :: "'n math_array \<Rightarrow> 'n pyobj \<Rightarrow> string" where
  "get_description M obj =
     (case obj of
        Num x \<Rightarrow> ''scalar''
      | Arr a \<Rightarrow> description M a
      | Other class_name \<Rightarrow> class_name)"

text \<open>
  \<^verbatim>\<open>number_validator\<close>: a Number is returned as it is, a scalar MathArray is
  returned as its \<^verbatim>\<open>item()\<close>, anything else raises \<^verbatim>\<open>Invalid\<close>.
\<close>

definition number_validator :: "'n math_array \<Rightarrow> 'n pyobj \<Rightarrow> invalid + 'n pyobj" where
  "number_validator M obj =
     (case obj of
        Num x \<Rightarrow> Inr obj
      | Arr a \<Rightarrow>
          if is_scalar_matharray M a then Inr (Num (item M a))
          else Inl (Invalid (''received a '' @ get_description M obj @ '', expected a scalar''))
      | Other class_name \<Rightarrow>
          Inl (Invalid (''received a '' @ get_description M obj @ '', expected a scalar'')))"

text \<open>
  \<^verbatim>\<open>make_shape_validator(shape)\<close> returns the closure \<^verbatim>\<open>shape_validator\<close>:
  \<^verbatim>\<open>if isinstance(obj, MathArray) and obj.shape == shape: return obj\<close>, else
  \<^verbatim>\<open>Invalid\<close>.
\<close>

definition make_shape_validator ::
  "'n math_array \<Rightarrow> nat list \<Rightarrow> 'n pyobj \<Rightarrow> invalid + 'n pyobj" where
  "make_shape_validator M shp obj =
     (case obj of
        Arr a \<Rightarrow>
          if shape a = shp then Inr obj
          else Inl (Invalid (''received a '' @ get_description M obj @ '', expected a ''
                 @ MathArray_get_description M shp))
      | _ \<Rightarrow>
          Inl (Invalid (''received a '' @ get_description M obj @ '', expected a ''
                 @ MathArray_get_description M shp)))"

definition has_shape :: "'n math_array \<Rightarrow> nat list \<Rightarrow> 'n pyobj \<Rightarrow> invalid + 'n pyobj" where
  "has_shape M shp = (if shp = [1] then number_validator M else make_shape_validator M shp)"

text \<open>
  Modelled from the spec: \<^verbatim>\<open>Positive(int)\<close> of
  \<^verbatim>\<open>mitxgraders/helpers/validatorfuncs.py\<close>, a file outside the sources at hand. The
  spec reads it as "positive integer", and so does the message of \<^verbatim>\<open>SCHEMA_SHAPE\<close>.
\<close>

definition Positive :: "int \<Rightarrow> bool" where
  "Positive x = (0 < x)"

text \<open>
  How authors specify a shape: a positive integer \<open>k\<close>, normalised to the tuple
  \<open>(k,)\<close>, or a list of positive integers, coerced to a tuple.
\<close>

datatype shape_spec = ShapeInt int | ShapeList "int list"

definition SCHEMA_SHAPE :: "shape_spec \<Rightarrow> invalid + nat list" where
  "SCHEMA_SHAPE spec =
     (case spec of
        ShapeInt x \<Rightarrow>
          if Positive x then Inr [nat x]
          else Inl (Invalid ''Expected shape specification to be a positive integer or list of positive integers'')
      | ShapeList xs \<Rightarrow>
          if list_all Positive xs then Inr (map nat xs)
          else Inl (Invalid ''Expected shape specification to be a positive integer or list of positive integers''))"

text \<open>
  A Python function: its \<^verbatim>\<open>__name__\<close> and what calling it on an argument list
  returns. The decorated function carries the marker \<^verbatim>\<open>validated\<close> besides.
\<close>

record ('n, 'r) pyfunction =
  name :: string
  call :: "'n pyobj list \<Rightarrow> 'r"

record ('n, 'r) validated_function = "('n, 'r) pyfunction" +
  validated :: bool

text \<open>
  voluptuous' \<^verbatim>\<open>Schema(validator)\<close>, called on a value, calls the validator and passes
  on its result or its \<^verbatim>\<open>Invalid\<close> (with the same \<^verbatim>\<open>error_message\<close>).
\<close>

definition Schema :: "('n pyobj \<Rightarrow> invalid + 'n pyobj) \<Rightarrow> 'n pyobj \<Rightarrow> invalid + 'n pyobj" where
  "Schema validator = validator"

text \<open>
  The first loop of \<^verbatim>\<open>_func\<close>:
  \<^verbatim>\<open>for schema, arg in zip(schemas, args):
      try: schema(arg); errors.append(None)
      except Invalid as error: errors.append(error)\<close>
\<close>

fun validation_loop ::
  "(('n pyobj \<Rightarrow> invalid + 'n pyobj) \<times> 'n pyobj) list \<Rightarrow> invalid option list \<Rightarrow> invalid option list" where
  "validation_loop [] errors = errors"
| "validation_loop ((schema, arg) # rest) errors =
     (case schema arg of
        Inr validated_arg \<Rightarrow> validation_loop rest (errors @ [None])
      | Inl error \<Rightarrow> validation_loop rest (errors @ [Some error]))"

text \<open>
  The second loop of \<^verbatim>\<open>_func\<close>, over
  \<^verbatim>\<open>enumerate(zip(shapes, errors))\<close>, appending one line for each argument.
\<close>

fun report_loop ::
  "'n math_array \<Rightarrow> (nat \<times> nat list \<times> invalid option) list \<Rightarrow> string list \<Rightarrow> string list" where
  "report_loop M [] lines = lines"
| "report_loop M ((index, shp, error) # rest) lines =
     (let ordinal = low_ordinal (index + 1) in
      case error of
        Some e \<Rightarrow>
          report_loop M rest (lines @ [ordinal @ '' input has an error: '' @ error_message e])
      | None \<Rightarrow>
          (let expected = (if shp = [1] then ''scalar'' else MathArray_get_description M shp)
           in report_loop M rest
                (lines @ [ordinal @ '' input is ok: received a '' @ expected @ '' as expected''])))"

text \<open>
  The closure \<^verbatim>\<open>_func(*args)\<close>; \<open>schemas\<close>, \<open>shapes\<close>, \<open>func_name\<close> and \<open>func\<close>
  are the variables it closes over.
\<close>

definition wrapped_func ::
  "'n math_array \<Rightarrow> ('n pyobj \<Rightarrow> invalid + 'n pyobj) list \<Rightarrow> nat list list \<Rightarrow> string \<Rightarrow>
   ('n pyobj list \<Rightarrow> 'r) \<Rightarrow> 'n pyobj list \<Rightarrow> error + 'r" where
  "wrapped_func M schemas shapes func_name func args =
     (if length shapes \<noteq> length args then
        Inl (DomainError (''There was an error evaluating function '' @ func_name
               @ ''(...): expected '' @ str (length shapes) @ '' inputs, but received ''
               @ str (length args) @ ''.''))
      else
        let errors = validation_loop (zip schemas args) [] in
        if list_all (\<lambda>error. error = None) errors then Inr (func args)
        else
          let lines = report_loop M (enumerate 0 (zip shapes errors))
                        [''There was an error evaluating function '' @ func_name @ ''(...)'']
          in Inl (DomainError (join [newline, tab] lines)))"

text \<open>
  \<^verbatim>\<open>func_name = display_name if display_name else func.__name__\<close>: an empty
  display name is falsy, as \<^verbatim>\<open>None\<close> is, and gives way to the function's own name.
  Then \<^verbatim>\<open>make_decorator(*shapes, display_name=...)(func)\<close>.
\<close>

definition func_name_of :: "string option \<Rightarrow> ('n, 'r) pyfunction \<Rightarrow> string" where
  "func_name_of display_name func =
     (case display_name of
        None \<Rightarrow> name func
      | Some d \<Rightarrow> if d \<noteq> [] then d else name func)"

definition make_decorator ::
  "'n math_array \<Rightarrow> nat list list \<Rightarrow> string option \<Rightarrow> ('n, 'r) pyfunction \<Rightarrow>
   ('n, error + 'r) validated_function" where
  "make_decorator M shapes display_name func =
     (let schemas = map (\<lambda>shp. Schema (has_shape M shp)) shapes;
          func_name = func_name_of display_name func
      in \<lparr> name = name func,
           call = wrapped_func M schemas shapes func_name (call func),
           validated = True \<rparr>)"

text \<open>
  Modelled from the spec: \<^verbatim>\<open>MathArray.get_description\<close> of
  \<^verbatim>\<open>mitxgraders/helpers/math_array.py\<close>, a file outside the sources at hand. The
  spec's shape descriptor gives "scalar", "vector of length N" and "matrix of shape
  (rows: R, cols: C)", and the docstrings of \<^verbatim>\<open>specify_domain.py\<close> show the last
  two. Neither shows an array of three or more dimensions; none occurs in what follows.
\<close>

definition describe_shape :: "nat list \<Rightarrow> string" where
  "describe_shape shp =
     (case shp of
        [] \<Rightarrow> ''scalar''
      | [n] \<Rightarrow> ''vector of length '' @ str n
      | [r, c] \<Rightarrow> ''matrix of shape (rows: '' @ str r @ '', cols: '' @ str c @ '')''
      | _ \<Rightarrow> ''tensor'')"

text \<open>
  Modelled from the spec: an array module for the concrete runs of the results, with
  the descriptions above. Its scalar arrays are the zero-dimensional ones, such as the
  \<^verbatim>\<open>MathArray(5)\<close> that the docstring of \<^verbatim>\<open>number_validator\<close> unwraps to 5; the runs
  use no other array where the scalar validator is asked.
\<close>

definition docstring_arrays :: "int math_array" where
  "docstring_arrays =
     \<lparr> is_scalar_matharray = (\<lambda>a. shape a = []),
       item = (\<lambda>a. hd (flat a)),
       MathArray_get_description = describe_shape \<rparr>"

section \<open>sampling.py\<close>

text \<open>
  A Python float is a double: a finite number, an infinity or nan. Rounding is not
  modelled (a finite result is the exact real number), overflow is: a result that
  rounds beyond the largest double, \<open>float_max\<close>, is an infinity. Round-to-nearest
  takes every real number of magnitude below \<open>2 ^ 1024 - 2 ^ 970\<close>, half a unit in the
  last place above \<open>float_max\<close>, to a finite double. Sums, differences and products
  follow IEEE 754 on infinities and nan. RealInterval and ComplexSector compute in
  these floats; the sine sums of RandomFunction are kept in exact real arithmetic.
\<close>

datatype pyfloat = Finite real | PosInf | NegInf | NaN

definition float_max :: real where
  "float_max = (2 ^ 53 - 1) * 2 ^ 971"

definition overflow_threshold :: real where
  "overflow_threshold = 2 ^ 1024 - 2 ^ 970"

definition to_float :: "real \<Rightarrow> pyfloat" where
  "to_float x =
     (if overflow_threshold \<le> x then PosInf
      else if x \<le> - overflow_threshold then NegInf
      else Finite x)"

fun float_neg :: "pyfloat \<Rightarrow> pyfloat" where
  "float_neg (Finite x) = Finite (- x)"
| "float_neg PosInf = NegInf"
| "float_neg NegInf = PosInf"
| "float_neg NaN = NaN"

fun float_add :: "pyfloat \<Rightarrow> pyfloat \<Rightarrow> pyfloat" where
  "float_add (Finite x) (Finite y) = to_float (x + y)"
| "float_add NaN b = NaN"
| "float_add a NaN = NaN"
| "float_add PosInf NegInf = NaN"
| "float_add NegInf PosInf = NaN"
| "float_add PosInf b = PosInf"
| "float_add a PosInf = PosInf"
| "float_add NegInf b = NegInf"
| "float_add a NegInf = NegInf"

definition float_sub :: "pyfloat \<Rightarrow> pyfloat \<Rightarrow> pyfloat" where
  "float_sub a b = float_add a (float_neg b)"

fun float_mul :: "pyfloat \<Rightarrow> pyfloat \<Rightarrow> pyfloat" where
  "float_mul (Finite x) (Finite y) = to_float (x * y)"
| "float_mul NaN b = NaN"
| "float_mul a NaN = NaN"
| "float_mul (Finite x) b = (if x = 0 then NaN else if 0 < x then b else float_neg b)"
| "float_mul a (Finite y) = (if y = 0 then NaN else if 0 < y then a else float_neg a)"
| "float_mul PosInf b = b"
| "float_mul NegInf b = float_neg b"

text \<open>
  The samplers draw from numpy's global random source. Its state is modelled by the
  outcomes it is still going to return: \<open>floats s k\<close> is the \<open>k\<close>-th uniform number
  to come, and \<open>ints s k low high\<close> is what the \<open>k\<close>-th call of
  \<^verbatim>\<open>randint(low, high)\<close> to come returns. A draw returns the next outcome and moves the
  state on. The source is \<open>well_behaved\<close> when it keeps numpy's contract: uniform
  numbers lie in \<open>[0, 1)\<close>, and \<^verbatim>\<open>randint(low, high)\<close> lies in \<open>[low, high)\<close>.
\<close>

record random_state =
  floats :: "nat \<Rightarrow> real"
  ints :: "nat \<Rightarrow> int \<Rightarrow> int \<Rightarrow> int"

definition well_behaved :: "random_state \<Rightarrow> bool" where
  "well_behaved s \<longleftrightarrow>
     (\<forall>k. 0 \<le> floats s k \<and> floats s k < 1) \<and>
     (\<forall>k low high. low < high \<longrightarrow> low \<le> ints s k low high \<and> ints s k low high < high)"

text \<open>\<^verbatim>\<open>np.random.random_sample()\<close>\<close>

definition random_sample :: "random_state \<Rightarrow> real \<times> random_state" where
  "random_sample s = (floats s 0, s\<lparr>floats := (\<lambda>k. floats s (Suc k))\<rparr>)"

text \<open>
  \<^verbatim>\<open>np.random.randint(low, high)\<close> draws a 64-bit integer. numpy raises ValueError
  when \<open>low\<close> is below \<open>- 2 ^ 63\<close> ("low is out of bounds for int64"), when
  \<open>high\<close> is above \<open>2 ^ 63\<close> ("high is out of bounds for int64"), and when
  \<open>low >= high\<close>.
\<close>

definition randint :: "int \<Rightarrow> int \<Rightarrow> random_state \<Rightarrow> (error + int) \<times> random_state" where
  "randint low high s =
     (if low < - (2 ^ 63) then (Inl ValueError, s)
      else if high > 2 ^ 63 then (Inl ValueError, s)
      else if low \<ge> high then (Inl ValueError, s)
      else (Inr (ints s 0 low high), s\<lparr>ints := (\<lambda>k. ints s (Suc k))\<rparr>))"

text \<open>
  \<^verbatim>\<open>np.random.rand(d0, d1, d2)\<close>: an array of shape \<open>(d0, d1, d2)\<close>, filled in
  row-major order with the next \<open>d0 * d1 * d2\<close> uniform numbers.
\<close>

type_synonym tensor = "real list list list"

definition rand :: "nat \<Rightarrow> nat \<Rightarrow> nat \<Rightarrow> random_state \<Rightarrow> tensor \<times> random_state" where
  "rand d0 d1 d2 s =
     (map (\<lambda>i. map (\<lambda>j. map (\<lambda>k. floats s ((i * d1 + j) * d2 + k)) [0..<d2]) [0..<d1]) [0..<d0],
      s\<lparr>floats := (\<lambda>k. floats s (k + d0 * d1 * d2))\<rparr>)"

text \<open>Elementwise numpy arithmetic on arrays of one shape, tiling, and the axis sums.\<close>

definition tensor_map :: "(real \<Rightarrow> real) \<Rightarrow> tensor \<Rightarrow> tensor" where
  "tensor_map g T = map (map (map g)) T"

definition tensor_map2 :: "(real \<Rightarrow> real \<Rightarrow> real) \<Rightarrow> tensor \<Rightarrow> tensor \<Rightarrow> tensor" where
  "tensor_map2 g T U = map2 (map2 (map2 g)) T U"

definition tile :: "real list \<Rightarrow> nat \<Rightarrow> nat \<Rightarrow> tensor" where
  "tile xvec d0 d1 = replicate d0 (replicate d1 xvec)"

definition sum_axis2 :: "tensor \<Rightarrow> real list list" where
  "sum_axis2 T = map (map sum_list) T"

definition sum_axis1 :: "real list list \<Rightarrow> real list" where
  "sum_axis1 rows = map sum_list rows"

text \<open>An array of shape \<open>(d0, d1, d2)\<close> given by its entries.\<close>

definition table :: "nat \<Rightarrow> nat \<Rightarrow> nat \<Rightarrow> (nat \<Rightarrow> nat \<Rightarrow> nat \<Rightarrow> real) \<Rightarrow> tensor" where
  "table d0 d1 d2 F = map (\<lambda>i. map (\<lambda>j. map (\<lambda>k. F i j k) [0..<d2]) [0..<d1]) [0..<d0]"

subsection \<open>RealInterval and IntegerRange\<close>

text \<open>
  The configuration of both classes is a validated pair \<open>start\<close>, \<open>stop\<close>; the
  constructor swaps the two when they are the wrong way around.
\<close>

record 'a number_range =
  start :: 'a
  stop :: 'a

definition RealInterval :: "real \<Rightarrow> real \<Rightarrow> real number_range" where
  "RealInterval a b =
     (let config = \<lparr> start = a, stop = b \<rparr>
      in if start config > stop config
         then config\<lparr> start := stop config, stop := start config \<rparr>
         else config)"

text \<open>
  \<^verbatim>\<open>start + (stop - start) * np.random.random_sample()\<close>, in floats: the
  difference of two finite bounds can overflow.
\<close>

definition RealInterval_gen_sample :: "real number_range \<Rightarrow> random_state \<Rightarrow> pyfloat \<times> random_state" where
  "RealInterval_gen_sample config s =
     (let (u, s') = random_sample s
      in (float_add (Finite (start config))
            (float_mul (float_sub (Finite (stop config)) (Finite (start config))) (Finite u)),
          s'))"

definition IntegerRange :: "int \<Rightarrow> int \<Rightarrow> int number_range" where
  "IntegerRange a b =
     (let config = \<lparr> start = a, stop = b \<rparr>
      in if start config > stop config
         then config\<lparr> start := stop config, stop := start config \<rparr>
         else config)"

definition IntegerRange_gen_sample ::
  "int number_range \<Rightarrow> random_state \<Rightarrow> (error + int) \<times> random_state" where
  "IntegerRange_gen_sample config s = randint (start config) (stop config + 1) s"

subsection \<open>ComplexSector\<close>

record complex_sector =
  modulus :: "real number_range"
  argument :: "real number_range"

definition ComplexSector :: "real \<times> real \<Rightarrow> real \<times> real \<Rightarrow> complex_sector" where
  "ComplexSector modulus_range argument_range =
     \<lparr> modulus = RealInterval (fst modulus_range) (snd modulus_range),
       argument = RealInterval (fst argument_range) (snd argument_range) \<rparr>"

text \<open>
  A complex sample is a finite complex number, or one with an infinite or nan part.
\<close>

datatype pycomplex = FiniteC complex | NonFiniteC

text \<open>
  \<^verbatim>\<open>self.modulus.gen_sample() * np.exp(1j * self.argument.gen_sample())\<close>: Python
  evaluates the left factor first, so the modulus takes the first draw. With a finite
  modulus \<open>r\<close> and a finite angle the product has parts of magnitude at most
  \<open>\<bar>r\<bar>\<close> and is finite; when either sample is an infinity or nan, so is a part of
  the product.
\<close>

definition ComplexSector_gen_sample :: "complex_sector \<Rightarrow> random_state \<Rightarrow> pycomplex \<times> random_state" where
  "ComplexSector_gen_sample self s =
     (let (r, s1) = RealInterval_gen_sample (modulus self) s;
          (t, s2) = RealInterval_gen_sample (argument self) s1
      in (case (r, t) of
            (Finite r', Finite t') \<Rightarrow> FiniteC (complex_of_real r' * exp (\<i> * complex_of_real t'))
          | _ \<Rightarrow> NonFiniteC,
          s2))"

subsection \<open>RandomFunction\<close>

record random_function =
  input_dim :: nat
  output_dim :: nat
  num_terms :: nat
  center :: real
  amplitude :: real

text \<open>
  The schema of the class: the three dimensions are positive integers and the amplitude
  is a positive number.
\<close>

definition schema_config :: "random_function \<Rightarrow> bool" where
  "schema_config self \<longleftrightarrow>
     0 < input_dim self \<and> 0 < output_dim self \<and> 0 < num_terms self \<and> 0 < amplitude self"

text \<open>What the generated function returns: a bare number or a vector.\<close>

datatype outcome = Scalar real | Vector "real list"

text \<open>
  The closure \<^verbatim>\<open>f(*args)\<close> that \<^verbatim>\<open>gen_sample\<close> returns. It closes over
  \<open>output_dim\<close>, \<open>input_dim\<close>, \<open>num_terms\<close> and the arrays \<open>A\<close>, \<open>B\<close>, \<open>C\<close>,
  and reads amplitude, number of terms and center from \<^verbatim>\<open>self.config\<close>, which nothing
  in the class changes after construction. A call takes the state of the random source
  and returns it with the result.
\<close>

definition RandomFunction_f ::
  "random_function \<Rightarrow> nat \<Rightarrow> nat \<Rightarrow> nat \<Rightarrow> tensor \<Rightarrow> tensor \<Rightarrow> tensor \<Rightarrow>
   real list \<Rightarrow> random_state \<Rightarrow> (error + outcome) \<times> random_state" where
  "RandomFunction_f self output_dim' input_dim' num_terms' A B C args s =
     (if length args \<noteq> input_dim' then
        (Inl (ConfigError (''Expected '' @ str input_dim' @ '' arguments, but received ''
                @ str (length args))), s)
      else
        let xvec = args;
            xarray = tile xvec output_dim' num_terms';
            output = tensor_map2 (*) A (tensor_map sin (tensor_map2 (+) (tensor_map2 (*) B xarray) C));
            fullsum = sum_axis1 (sum_axis2 output);
            fullsum = map (\<lambda>y. y * amplitude self / real (num_terms self)) fullsum;
            fullsum = map (\<lambda>y. y + center self) fullsum
        in (if output_dim' > 1 then Inr (Vector fullsum)
            else (case fullsum of [] \<Rightarrow> Inl IndexError | y # ys \<Rightarrow> Inr (Scalar y)),
            s))"

definition RandomFunction_gen_sample ::
  "random_function \<Rightarrow> random_state \<Rightarrow>
   (real list \<Rightarrow> random_state \<Rightarrow> (error + outcome) \<times> random_state) \<times> random_state" where
  "RandomFunction_gen_sample self s =
     (let output_dim' = output_dim self;
          input_dim' = input_dim self;
          num_terms' = num_terms self;
          (R1, s1) = rand output_dim' num_terms' input_dim' s;
          A = tensor_map (\<lambda>r. r / 2 + 0.5) R1;
          (R2, s2) = rand output_dim' num_terms' input_dim' s1;
          B = tensor_map (\<lambda>r. 2 * pi * (r - 0.5)) R2;
          (R3, s3) = rand output_dim' num_terms' input_dim' s2;
          C = tensor_map (\<lambda>r. 2 * pi * r) R3
      in (RandomFunction_f self output_dim' input_dim' num_terms' A B C, s3))"

text \<open>A random source for the concrete runs below: every draw is the least outcome.\<close>

definition least_draws :: random_state where
  "least_draws = \<lparr> floats = (\<lambda>k. 0), ints = (\<lambda>k low high. low) \<rparr>"

section \<open>Lemmas on the text helpers and the two loops\<close>

lemma digit_char_not_newline: "d < 10 \<Longrightarrow> newline \<noteq> digit_char d"
proof -
  assume "d < 10"
  then have "d \<in> {0, 1, 2, 3, 4, 5, 6, 7, 8, 9}" by auto
  then show ?thesis by (auto simp: digit_char_def newline_def)
qed

lemma str_no_newline: "newline \<notin> set (str n)"
proof (induction n rule: str.induct)
  case (1 n)
  show ?case
  proof (cases "n < 10")
    case True
    then show ?thesis by (simp add: str.simps [of n] digit_char_not_newline)
  next
    case False
    have "n mod 10 < 10" by simp
    with False 1 show ?thesis
      by (simp add: str.simps [of n] digit_char_not_newline)
  qed
qed

lemma validation_loop_map:
  "validation_loop pairs errors =
     errors @ map (\<lambda>(schema, arg). case schema arg of Inr v \<Rightarrow> None | Inl e \<Rightarrow> Some e) pairs"
  by (induction pairs errors rule: validation_loop.induct) (auto split: sum.splits)

lemma report_loop_map:
  "report_loop M entries lines =
     lines @ map (\<lambda>(index, shp, error).
        low_ordinal (index + 1) @
          (case error of
             Some e \<Rightarrow> '' input has an error: '' @ error_message e
           | None \<Rightarrow> '' input is ok: received a ''
               @ (if shp = [1] then ''scalar'' else MathArray_get_description M shp)
               @ '' as expected'')) entries"
  by (induction M entries lines rule: report_loop.induct) (auto split: option.splits)

lemma errors_of_args:
  assumes "length shapes = length args"
  shows "validation_loop (zip (map (\<lambda>shp. Schema (has_shape M shp)) shapes) args) [] =
         map (\<lambda>i. case has_shape M (shapes ! i) (args ! i) of Inr v \<Rightarrow> None | Inl e \<Rightarrow> Some e)
           [0..<length args]"
  using assms
  by (auto simp: validation_loop_map Schema_def intro!: nth_equalityI)

lemma all_ok_iff:
  "list_all (\<lambda>error. error = None)
     (map (\<lambda>i. case f i of Inr v \<Rightarrow> None | Inl e \<Rightarrow> Some e) [0..<n])
   \<longleftrightarrow> (\<forall>i<n. \<not> isl (f i))"
  by (auto simp: list_all_iff isl_def split: sum.splits)

lemma report_lines_of_args:
  assumes "length shapes = length args"
  shows "report_loop M (enumerate 0 (zip shapes
            (map (\<lambda>i. case has_shape M (shapes ! i) (args ! i) of Inr v \<Rightarrow> None | Inl e \<Rightarrow> Some e)
               [0..<length args]))) lines =
         lines @ map (\<lambda>i. low_ordinal (i + 1) @
                     (case has_shape M (shapes ! i) (args ! i) of
                        Inl e \<Rightarrow> '' input has an error: '' @ error_message e
                      | Inr v \<Rightarrow> '' input is ok: received a ''
                          @ (if shapes ! i = [1] then ''scalar''
                             else MathArray_get_description M (shapes ! i))
                          @ '' as expected''))
                  [0..<length args]"
  using assms
  by (auto simp: report_loop_map enumerate_eq_zip intro!: nth_equalityI split: sum.splits)



lemma scalar_wrapper_call:
  "\<not> isl (number_validator M obj) \<Longrightarrow>
   call (make_decorator M [[1]] display_name func) [obj] = Inr (call func [obj])"
  by (simp add: make_decorator_def wrapped_func_def Let_def has_shape_def Schema_def isl_def
      split: sum.splits)


section \<open>Lemmas on the samplers\<close>

lemma float_max_below_threshold: "float_max < overflow_threshold"
  by (simp add: float_max_def overflow_threshold_def)

lemma small_below_float_max: "8 \<le> float_max"
  by (simp add: float_max_def)

lemma RealInterval_bounds:
  "start (RealInterval a b) = min a b" "stop (RealInterval a b) = max a b"
  by (auto simp: RealInterval_def Let_def)

lemma IntegerRange_bounds:
  "start (IntegerRange a b) = min a b" "stop (IntegerRange a b) = max a b"
  by (auto simp: IntegerRange_def Let_def)

lemma scale_in_interval:
  fixes lo hi u :: real
  assumes "lo \<le> hi" "0 \<le> u" "u < 1"
  shows "lo \<le> lo + (hi - lo) * u" "lo + (hi - lo) * u \<le> hi"
proof -
  from assms have "0 \<le> (hi - lo) * u" by simp
  then show "lo \<le> lo + (hi - lo) * u" by simp
  from assms have "(hi - lo) * u \<le> (hi - lo) * 1"
    by (intro mult_left_mono) simp_all
  then show "lo + (hi - lo) * u \<le> hi" by simp
qed

lemma to_float_Finite: "\<bar>x\<bar> < overflow_threshold \<Longrightarrow> to_float x = Finite x"
  by (auto simp: to_float_def)

lemma RealInterval_gen_sample_state:
  "snd (RealInterval_gen_sample config s) = s\<lparr>floats := (\<lambda>k. floats s (Suc k))\<rparr>"
  by (simp add: RealInterval_gen_sample_def random_sample_def)

lemma RealInterval_gen_sample_finite:
  assumes order: "start config \<le> stop config"
    and lo: "\<bar>start config\<bar> \<le> float_max" and hi: "\<bar>stop config\<bar> \<le> float_max"
    and width: "stop config - start config < overflow_threshold"
    and u: "0 \<le> floats s 0" "floats s 0 < 1"
  shows "fst (RealInterval_gen_sample config s)
           = Finite (start config + (stop config - start config) * floats s 0)"
proof -
  let ?d = "stop config - start config"
  let ?u = "floats s 0"
  from order have d0: "0 \<le> ?d" by simp
  with width have "\<bar>?d\<bar> < overflow_threshold" by simp
  then have sub: "float_sub (Finite (stop config)) (Finite (start config)) = Finite ?d"
    by (simp add: float_sub_def to_float_Finite)
  from d0 u have p0: "0 \<le> ?d * ?u" by simp
  from d0 u have "?d * ?u \<le> ?d * 1" by (intro mult_left_mono) simp_all
  with p0 width have "\<bar>?d * ?u\<bar> < overflow_threshold" by simp
  then have mul: "float_mul (Finite ?d) (Finite ?u) = Finite (?d * ?u)"
    by (simp add: to_float_Finite)
  from scale_in_interval [OF order u]
  have "start config \<le> start config + ?d * ?u" "start config + ?d * ?u \<le> stop config"
    by simp_all
  with lo hi have "\<bar>start config + ?d * ?u\<bar> \<le> float_max" by linarith
  with float_max_below_threshold have "\<bar>start config + ?d * ?u\<bar> < overflow_threshold" by linarith
  then have add: "float_add (Finite (start config)) (Finite (?d * ?u))
      = Finite (start config + ?d * ?u)"
    by (simp add: to_float_Finite)
  show ?thesis
    unfolding RealInterval_gen_sample_def random_sample_def Let_def prod.case sub mul add
    by simp
qed

lemma RealInterval_gen_sample_overflow:
  assumes width: "overflow_threshold \<le> stop config - start config"
    and u: "0 \<le> floats s 0"
  shows "fst (RealInterval_gen_sample config s) = (if floats s 0 = 0 then NaN else PosInf)"
proof -
  from width have sub: "float_sub (Finite (stop config)) (Finite (start config)) = PosInf"
    by (simp add: float_sub_def to_float_def)
  show ?thesis
    unfolding RealInterval_gen_sample_def random_sample_def Let_def prod.case sub
    using u by simp
qed

lemma ComplexSector_gen_sample_value:
  "fst (ComplexSector_gen_sample self s) =
     (case (fst (RealInterval_gen_sample (modulus self) s),
            fst (RealInterval_gen_sample (argument self)
                   (snd (RealInterval_gen_sample (modulus self) s)))) of
        (Finite r, Finite t) \<Rightarrow> FiniteC (complex_of_real r * exp (\<i> * complex_of_real t))
      | _ \<Rightarrow> NonFiniteC)"
  by (simp add: ComplexSector_gen_sample_def Let_def case_prod_beta)

lemma cmod_polar: "0 \<le> r \<Longrightarrow> cmod (complex_of_real r * exp (\<i> * complex_of_real t)) = r"
  by (simp add: norm_mult cis_conv_exp [symmetric])

lemma ComplexSector_polar:
  assumes wb: "well_behaved s"
    and m: "\<bar>m0\<bar> \<le> float_max" "\<bar>m1\<bar> \<le> float_max" "max m0 m1 - min m0 m1 < overflow_threshold"
    and a: "\<bar>a0\<bar> \<le> float_max" "\<bar>a1\<bar> \<le> float_max" "max a0 a1 - min a0 a1 < overflow_threshold"
  shows "fst (ComplexSector_gen_sample (ComplexSector (m0, m1) (a0, a1)) s) =
     FiniteC (complex_of_real (min m0 m1 + (max m0 m1 - min m0 m1) * floats s 0)
       * exp (\<i> * complex_of_real (min a0 a1 + (max a0 a1 - min a0 a1) * floats s 1)))"
proof -
  from wb have u0: "0 \<le> floats s 0" "floats s 0 < 1" and u1: "0 \<le> floats s 1" "floats s 1 < 1"
    by (simp_all add: well_behaved_def)
  let ?s1 = "snd (RealInterval_gen_sample (RealInterval m0 m1) s)"
  have s1: "floats ?s1 0 = floats s 1"
    by (simp add: RealInterval_gen_sample_state)
  from m have lo: "\<bar>min m0 m1\<bar> \<le> float_max" "\<bar>max m0 m1\<bar> \<le> float_max"
    by (auto simp: min_def max_def)
  from a have la: "\<bar>min a0 a1\<bar> \<le> float_max" "\<bar>max a0 a1\<bar> \<le> float_max"
    by (auto simp: min_def max_def)
  have r: "fst (RealInterval_gen_sample (RealInterval m0 m1) s)
      = Finite (min m0 m1 + (max m0 m1 - min m0 m1) * floats s 0)"
    using RealInterval_gen_sample_finite [of "RealInterval m0 m1" s] lo m(3) u0
    by (simp add: RealInterval_bounds)
  have t: "fst (RealInterval_gen_sample (RealInterval a0 a1) ?s1)
      = Finite (min a0 a1 + (max a0 a1 - min a0 a1) * floats s 1)"
    using RealInterval_gen_sample_finite [of "RealInterval a0 a1" ?s1] la a(3) u1
    by (simp add: RealInterval_bounds s1)
  show ?thesis
    by (simp add: ComplexSector_gen_sample_value ComplexSector_def r t)
qed

lemma map2_map_upt:
  "map2 g (map F [0..<n]) (map G [0..<n]) = map (\<lambda>i. g (F i) (G i)) [0..<n]"
  by (rule nth_equalityI) simp_all

lemma tensor_map_table: "tensor_map g (table d0 d1 d2 F) = table d0 d1 d2 (\<lambda>i j k. g (F i j k))"
  by (simp add: tensor_map_def table_def comp_def)

lemma tensor_map2_table:
  "tensor_map2 g (table d0 d1 d2 F) (table d0 d1 d2 G) = table d0 d1 d2 (\<lambda>i j k. g (F i j k) (G i j k))"
  by (simp add: tensor_map2_def table_def map2_map_upt)

lemma tile_table: "tile xvec d0 d1 = table d0 d1 (length xvec) (\<lambda>i j k. xvec ! k)"
  by (simp add: tile_def table_def map_replicate_trivial [symmetric] map_nth del: map_replicate_trivial)

lemma sum_list_map_upt: "sum_list (map F [0..<n]) = (\<Sum>k<n. F k :: real)"
  by (simp add: interv_sum_list_conv_sum_set_nat atLeast0LessThan)

lemma sum_axes_table:
  "sum_axis1 (sum_axis2 (table d0 d1 d2 F)) = map (\<lambda>i. \<Sum>j<d1. \<Sum>k<d2. F i j k) [0..<d0]"
  by (simp add: sum_axis1_def sum_axis2_def table_def comp_def sum_list_map_upt)

lemma rand_table:
  "fst (rand d0 d1 d2 s) = table d0 d1 d2 (\<lambda>i j k. floats s ((i * d1 + j) * d2 + k))"
  "floats (snd (rand d0 d1 d2 s)) k = floats s (k + d0 * d1 * d2)"
  by (simp_all add: rand_def table_def)

lemma RandomFunction_f_table:
  assumes "length args = d2" "0 < d0"
  shows "RandomFunction_f self d0 d2 d1 (table d0 d1 d2 A) (table d0 d1 d2 B) (table d0 d1 d2 C) args s' =
     (let y = (\<lambda>i. center self + amplitude self / real (num_terms self)
                  * (\<Sum>j<d1. \<Sum>k<d2. A i j k * sin (B i j k * args ! k + C i j k)))
      in Inr (if d0 = 1 then Scalar (y 0) else Vector (map y [0..<d0])), s')"
proof (cases "d0 = 1")
  case True
  then show ?thesis
    using assms
    by (simp add: RandomFunction_f_def Let_def tile_table tensor_map_table tensor_map2_table
        sum_axes_table algebra_simps)
next
  case False
  with assms have "1 < d0" by simp
  then show ?thesis
    using assms False
    by (simp add: RandomFunction_f_def Let_def tile_table tensor_map_table tensor_map2_table
        sum_axes_table algebra_simps)
qed

lemma RandomFunction_gen_sample_table:
  "fst (RandomFunction_gen_sample self s) =
     (let N = output_dim self * num_terms self * input_dim self;
          idx = (\<lambda>i j k. (i * num_terms self + j) * input_dim self + k)
      in RandomFunction_f self (output_dim self) (input_dim self) (num_terms self)
        (table (output_dim self) (num_terms self) (input_dim self)
           (\<lambda>i j k. floats s (idx i j k) / 2 + 0.5))
        (table (output_dim self) (num_terms self) (input_dim self)
           (\<lambda>i j k. 2 * pi * (floats s (N + idx i j k) - 0.5)))
        (table (output_dim self) (num_terms self) (input_dim self)
           (\<lambda>i j k. 2 * pi * floats s (2 * N + idx i j k))))"
proof -
  obtain R1 s1 where r1: "rand (output_dim self) (num_terms self) (input_dim self) s = (R1, s1)"
    by (cases "rand (output_dim self) (num_terms self) (input_dim self) s")
  obtain R2 s2 where r2: "rand (output_dim self) (num_terms self) (input_dim self) s1 = (R2, s2)"
    by (cases "rand (output_dim self) (num_terms self) (input_dim self) s1")
  obtain R3 s3 where r3: "rand (output_dim self) (num_terms self) (input_dim self) s2 = (R3, s3)"
    by (cases "rand (output_dim self) (num_terms self) (input_dim self) s2")
  let ?N = "output_dim self * num_terms self * input_dim self"
  let ?idx = "\<lambda>i j k. (i * num_terms self + j) * input_dim self + k"
  from rand_table [of "output_dim self" "num_terms self" "input_dim self" s] r1
  have R1: "R1 = table (output_dim self) (num_terms self) (input_dim self) (\<lambda>i j k. floats s (?idx i j k))"
    and f1: "\<And>k. floats s1 k = floats s (k + ?N)"
    by simp_all
  from rand_table [of "output_dim self" "num_terms self" "input_dim self" s1] r2
  have R2: "R2 = table (output_dim self) (num_terms self) (input_dim self) (\<lambda>i j k. floats s1 (?idx i j k))"
    and f2: "\<And>k. floats s2 k = floats s1 (k + ?N)"
    by simp_all
  from rand_table [of "output_dim self" "num_terms self" "input_dim self" s2] r3
  have R3: "R3 = table (output_dim self) (num_terms self) (input_dim self) (\<lambda>i j k. floats s2 (?idx i j k))"
    by simp
  have i1: "floats s1 (?idx i j k) = floats s (?N + ?idx i j k)" for i j k
    by (simp add: f1 add.commute)
  have i2: "floats s2 (?idx i j k) = floats s (2 * ?N + ?idx i j k)" for i j k
  proof -
    have "?idx i j k + ?N + ?N = 2 * ?N + ?idx i j k" by simp
    then show ?thesis by (simp only: f1 f2)
  qed
  show ?thesis
    unfolding RandomFunction_gen_sample_def Let_def r1 r2 r3 prod.case fst_conv R1 R2 R3
      tensor_map_table i1 i2 ..
qed

section \<open>The domain wrapper: results\<close>

text \<open>
  C3. When the number of call arguments differs from the number of declared shapes, the
  wrapped function raises one domain error whose message names the function, the
  expected count and the received count. The message is a single line (it has no
  newline unless the function's name has one). No argument is validated: the result is
  the same for every list of validators \<open>schemas\<close> the closure could hold, and it
  depends on the arguments through their number only.
\<close>

theorem arity_mismatch_short_circuits:
  assumes "length shapes \<noteq> length args"
  shows "(let msg = ''There was an error evaluating function '' @ func_name_of display_name func
                 @ ''(...): expected '' @ str (length shapes) @ '' inputs, but received ''
                 @ str (length args) @ ''.''
          in call (make_decorator M shapes display_name func) args = Inl (DomainError msg)
           \<and> wrapped_func M schemas shapes (func_name_of display_name func) (call func) args
               = Inl (DomainError msg)
           \<and> (newline \<notin> set (func_name_of display_name func) \<longrightarrow> newline \<notin> set msg))"
  using assms
  by (simp add: make_decorator_def wrapped_func_def Let_def
      str_no_newline [unfolded newline_def] newline_def)

theorem arity_mismatch_short_circuits_witness:
  "length [[3], [3 :: nat]] \<noteq> length [Arr (MathArray [3] [2, - 1, 3 :: int])]
   \<and> call (make_decorator docstring_arrays [[3], [3]] None
            \<lparr> name = ''cross'', call = (\<lambda>args. args) \<rparr>)
         [Arr (MathArray [3] [2, - 1, 3])]
       = Inl (DomainError
           ''There was an error evaluating function cross(...): expected 2 inputs, but received 1.'')
   \<and> newline \<notin> set
        ''There was an error evaluating function cross(...): expected 2 inputs, but received 1.''"
  using arity_mismatch_short_circuits
    [of "[[3], [3]]" "[Arr (MathArray [3] [2, - 1, 3 :: int])]" None
        "\<lparr> name = ''cross'', call = (\<lambda>args. args) \<rparr>" docstring_arrays "[]"]
  by (simp add: func_name_of_def str.simps digit_char_def Let_def newline_def)

text \<open>
  C1 (as the code has it). For a wrapper built with the single shape \<open>(1,)\<close>, a call
  with a plain number succeeds, and so does a call with an array that
  \<open>is_scalar_matharray\<close> accepts. The scalar validator returns the bare number
  (\<open>item\<close> of the array), but \<^verbatim>\<open>_func\<close> drops the validator's result: the wrapped
  function is called with the original arguments, the array itself in the second case.
\<close>

theorem scalar_wrapper_passes_original_argument:
  "call (make_decorator M [[1]] display_name func) [Num x] = Inr (call func [Num x])
   \<and> number_validator M (Num x) = Inr (Num x)
   \<and> (is_scalar_matharray M a \<longrightarrow>
        call (make_decorator M [[1]] display_name func) [Arr a] = Inr (call func [Arr a])
        \<and> number_validator M (Arr a) = Inr (Num (item M a)))"
proof -
  have num: "number_validator M (Num x) = Inr (Num x)"
    by (simp add: number_validator_def)
  have arr: "number_validator M (Arr a) = Inr (Num (item M a))" if "is_scalar_matharray M a"
    using that by (simp add: number_validator_def)
  have call_num: "call (make_decorator M [[1]] display_name func) [Num x] = Inr (call func [Num x])"
    by (rule scalar_wrapper_call) (simp add: num)
  have call_arr: "call (make_decorator M [[1]] display_name func) [Arr a] = Inr (call func [Arr a])"
    if "is_scalar_matharray M a"
    by (rule scalar_wrapper_call) (simp add: arr that)
  from num arr call_num call_arr show ?thesis
    by blast
qed

theorem scalar_wrapper_passes_original_argument_witness:
  "is_scalar_matharray docstring_arrays (MathArray [] [5])
   \<and> call (make_decorator docstring_arrays [[1]] None \<lparr> name = ''f'', call = (\<lambda>args. args) \<rparr>)
        [Num 5] = Inr [Num 5]
   \<and> call (make_decorator docstring_arrays [[1]] None \<lparr> name = ''f'', call = (\<lambda>args. args) \<rparr>)
        [Arr (MathArray [] [5])] = Inr [Arr (MathArray [] [5])]
   \<and> number_validator docstring_arrays (Arr (MathArray [] [5])) = Inr (Num 5)"
  using scalar_wrapper_passes_original_argument
    [of docstring_arrays None "\<lparr> name = ''f'', call = (\<lambda>args. args) \<rparr>" 5 "MathArray [] [5]"]
  by (simp add: docstring_arrays_def)

text \<open>
  C1 as first stated would have the wrapped function receive the unwrapped number. The
  wrapped function \<open>\<lambda>args. args\<close> returns what it receives: called through the scalar
  wrapper with \<^verbatim>\<open>MathArray(5)\<close>, it receives the array, not the number 5.
\<close>

theorem wrapped_function_receives_array_counterexample:
  "call (make_decorator docstring_arrays [[1]] None \<lparr> name = ''f'', call = (\<lambda>args. args) \<rparr>)
        [Arr (MathArray [] [5])] \<noteq> Inr [Num 5]
   \<and> call (make_decorator docstring_arrays [[1]] None \<lparr> name = ''f'', call = (\<lambda>args. args) \<rparr>)
        [Arr (MathArray [] [5])] = Inr [Arr (MathArray [] [5])]"
  by (simp add: make_decorator_def wrapped_func_def Let_def has_shape_def Schema_def
      number_validator_def docstring_arrays_def)

text \<open>
  C2 (as the code has it). When the call has the declared number of arguments and at
  least one argument fails its shape check, one domain error is raised. Its report is
  the header naming the function followed by one line for each argument, in order; the
  line of argument \<open>i\<close> carries its ordinal and is decided by the check of argument
  \<open>i\<close> against shape \<open>i\<close> alone: "input has an error" with the validator's message,
  or "input is ok" with the description of the expected shape. Lines are joined by a
  newline and a tab. In particular, two shapes \<open>(3,)\<close> and a call with a vector of
  length 3 and a vector of length 2 give a report of three lines: the header, the line
  of the accepted first input and, third, "2nd input has an error: received a vector of
  length 2, expected a vector of length 3" (for an array module that describes vectors
  as the docstrings do).
\<close>

theorem failed_shape_check_reports_every_argument:
  "(length shapes = length args \<and> (\<exists>i<length args. isl (has_shape M (shapes ! i) (args ! i)))
     \<longrightarrow>
     call (make_decorator M shapes display_name func) args =
       Inl (DomainError (join [newline, tab]
         ((''There was an error evaluating function '' @ func_name_of display_name func @ ''(...)'')
          # map (\<lambda>i. low_ordinal (i + 1) @
                     (case has_shape M (shapes ! i) (args ! i) of
                        Inl e \<Rightarrow> '' input has an error: '' @ error_message e
                      | Inr v \<Rightarrow> '' input is ok: received a ''
                          @ (if shapes ! i = [1] then ''scalar''
                             else MathArray_get_description M (shapes ! i))
                          @ '' as expected''))
               [0..<length args]))))
   \<and> (MathArray_get_description M [3] = ''vector of length 3''
        \<and> MathArray_get_description M [2] = ''vector of length 2''
     \<longrightarrow>
     call (make_decorator M [[3], [3]] display_name func)
          [Arr (MathArray [3] u), Arr (MathArray [2] v)] =
       Inl (DomainError
         (join [newline, tab]
           [''There was an error evaluating function '' @ func_name_of display_name func @ ''(...)'',
            ''1st input is ok: received a vector of length 3 as expected'',
            ''2nd input has an error: received a vector of length 2, expected a vector of length 3''])))"
proof -
  have general: "call (make_decorator M shapes display_name func) args =
       Inl (DomainError (join [newline, tab]
         ((''There was an error evaluating function '' @ func_name_of display_name func @ ''(...)'')
          # map (\<lambda>i. low_ordinal (i + 1) @
                     (case has_shape M (shapes ! i) (args ! i) of
                        Inl e \<Rightarrow> '' input has an error: '' @ error_message e
                      | Inr v \<Rightarrow> '' input is ok: received a ''
                          @ (if shapes ! i = [1] then ''scalar''
                             else MathArray_get_description M (shapes ! i))
                          @ '' as expected''))
               [0..<length args])))"
    if len: "length shapes = length args"
      and bad: "\<exists>i<length args. isl (has_shape M (shapes ! i) (args ! i))"
    for shapes :: "nat list list" and args :: "'a pyobj list"
  proof -
    from bad have not_ok: "\<not> list_all (\<lambda>error. error = None)
        (map (\<lambda>i. case has_shape M (shapes ! i) (args ! i) of Inr v \<Rightarrow> None | Inl e \<Rightarrow> Some e)
           [0..<length args])"
      by (simp add: all_ok_iff)
    show ?thesis
      using len not_ok
      by (simp add: make_decorator_def wrapped_func_def Let_def errors_of_args
          report_lines_of_args)
  qed
  have particular: "call (make_decorator M [[3], [3]] display_name func)
          [Arr (MathArray [3] u), Arr (MathArray [2] v)] =
       Inl (DomainError
         (join [newline, tab]
           [''There was an error evaluating function '' @ func_name_of display_name func @ ''(...)'',
            ''1st input is ok: received a vector of length 3 as expected'',
            ''2nd input has an error: received a vector of length 2, expected a vector of length 3'']))"
    if d3: "MathArray_get_description M [3] = ''vector of length 3''"
      and d2: "MathArray_get_description M [2] = ''vector of length 2''"
  proof -
    have bad: "\<exists>i<length [Arr (MathArray [3] u), Arr (MathArray [2] v)].
        isl (has_shape M ([[3], [3]] ! i) ([Arr (MathArray [3] u), Arr (MathArray [2] v)] ! i))"
      by (rule exI [of _ 1]) (simp add: has_shape_def make_shape_validator_def)
    have upt2: "[0..<2] = [0, Suc 0]" by (simp add: upt_rec)
    show ?thesis
      using general [of "[[3], [3]]" "[Arr (MathArray [3] u), Arr (MathArray [2] v)]", OF _ bad]
      by (simp add: upt2 has_shape_def make_shape_validator_def get_description_def
          description_def d3 d2 low_ordinal_def)
  qed
  from general particular show ?thesis by blast
qed

theorem failed_shape_check_reports_every_argument_witness:
  "length [[3], [3 :: nat]] = length [Arr (MathArray [3] [2, - 1, 3 :: int]), Arr (MathArray [2] [- 1, 4])]
   \<and> isl (has_shape docstring_arrays [3] (Arr (MathArray [2] [- 1, 4])))
   \<and> MathArray_get_description docstring_arrays [3] = ''vector of length 3''
   \<and> MathArray_get_description docstring_arrays [2] = ''vector of length 2''
   \<and> call (make_decorator docstring_arrays [[3], [3]] None
              \<lparr> name = ''cross'', call = (\<lambda>args. args) \<rparr>)
          [Arr (MathArray [3] [2, - 1, 3]), Arr (MathArray [2] [- 1, 4])] =
       Inl (DomainError
         (join [newline, tab]
           [''There was an error evaluating function cross(...)'',
            ''1st input is ok: received a vector of length 3 as expected'',
            ''2nd input has an error: received a vector of length 2, expected a vector of length 3'']))"
  using failed_shape_check_reports_every_argument
    [of "[[3], [3]]" "[Arr (MathArray [3] [2, - 1, 3 :: int]), Arr (MathArray [2] [- 1, 4])]"
        docstring_arrays None "\<lparr> name = ''cross'', call = (\<lambda>args. args) \<rparr>"
        "[2, - 1, 3]" "[- 1, 4]"]
  by (simp add: docstring_arrays_def describe_shape_def str.simps digit_char_def
      func_name_of_def has_shape_def make_shape_validator_def)

text \<open>
  C2 as first stated would have the line of the second input second in the report. The
  report of the \<^verbatim>\<open>cross\<close> example of the class docstring, line by line: its second
  line is the line of the first input, and the line of the second input comes third.
\<close>

theorem report_second_line_counterexample:
  "call (make_decorator docstring_arrays [[3], [3]] None
              \<lparr> name = ''cross'', call = (\<lambda>args. args) \<rparr>)
          [Arr (MathArray [3] [2, - 1, 3]), Arr (MathArray [2] [- 1, 4])] =
       Inl (DomainError
         (join [newline, tab]
           [''There was an error evaluating function cross(...)'',
            ''1st input is ok: received a vector of length 3 as expected'',
            ''2nd input has an error: received a vector of length 2, expected a vector of length 3'']))
   \<and> [''There was an error evaluating function cross(...)'',
       ''1st input is ok: received a vector of length 3 as expected'',
       ''2nd input has an error: received a vector of length 2, expected a vector of length 3''] ! 1
     \<noteq> ''2nd input has an error: received a vector of length 2, expected a vector of length 3''"
  by (simp add: make_decorator_def wrapped_func_def Let_def Schema_def has_shape_def
      make_shape_validator_def get_description_def description_def docstring_arrays_def
      describe_shape_def str.simps digit_char_def func_name_of_def low_ordinal_def
      enumerate_eq_zip upt_rec)

text \<open>
  C10. The shape declaration 1 (and the list \<open>[1]\<close>) is normalised to the tuple
  \<open>(1,)\<close>, and \<open>has_shape\<close> answers that tuple with the scalar validator, never with an
  exact-shape validator: a plain number passes it, and an array that
  \<open>is_scalar_matharray\<close> accepts passes it. So no shape declaration demands a length-1
  array: every declaration accepts some object that is not an array of shape \<open>(1,)\<close>.
  Every other shape tuple accepts exactly the arrays whose shape is that tuple, and
  returns them as they are.
\<close>

theorem shape_one_means_scalar:
  "SCHEMA_SHAPE (ShapeInt 1) = Inr [1]
   \<and> SCHEMA_SHAPE (ShapeList [1]) = Inr [1]
   \<and> has_shape M [1] = number_validator M
   \<and> number_validator M (Num x) = Inr (Num x)
   \<and> (is_scalar_matharray M a \<longrightarrow> number_validator M (Arr a) = Inr (Num (item M a)))
   \<and> (\<forall>shp. \<exists>obj r. has_shape M shp obj = Inr r \<and> \<not> (\<exists>b. obj = Arr b \<and> shape b = [1]))
   \<and> (shp \<noteq> [1] \<longrightarrow>
        (has_shape M shp obj = Inr r \<longleftrightarrow> (\<exists>b. obj = Arr b \<and> shape b = shp) \<and> r = obj))"
proof -
  have schema: "SCHEMA_SHAPE (ShapeInt 1) = Inr [1]" "SCHEMA_SHAPE (ShapeList [1]) = Inr [1]"
    by (simp_all add: SCHEMA_SHAPE_def Positive_def)
  have scalar: "has_shape M [1] = number_validator M"
    by (simp add: has_shape_def)
  have num: "number_validator M (Num x) = Inr (Num x)"
    by (simp add: number_validator_def)
  have arr: "is_scalar_matharray M a \<longrightarrow> number_validator M (Arr a) = Inr (Num (item M a))"
    by (simp add: number_validator_def)
  have never_only: "\<exists>obj r. has_shape M shp obj = Inr r \<and> \<not> (\<exists>b. obj = Arr b \<and> shape b = [1])"
    for shp
  proof (cases "shp = [1]")
    case True
    have "has_shape M shp (Num x) = Inr (Num x)"
      using True by (simp add: has_shape_def number_validator_def)
    then show ?thesis by blast
  next
    case False
    let ?obj = "Arr (MathArray shp (replicate (prod_list shp) x))"
    have "has_shape M shp ?obj = Inr ?obj"
      using False by (simp add: has_shape_def make_shape_validator_def)
    moreover have "\<not> (\<exists>b. ?obj = Arr b \<and> shape b = [1])"
      using False by auto
    ultimately show ?thesis by blast
  qed
  have exact: "shp \<noteq> [1] \<longrightarrow>
        (has_shape M shp obj = Inr r \<longleftrightarrow> (\<exists>b. obj = Arr b \<and> shape b = shp) \<and> r = obj)"
    by (cases obj) (auto simp: has_shape_def make_shape_validator_def)
  from schema scalar num arr never_only exact show ?thesis by blast
qed

theorem shape_one_means_scalar_witness:
  "is_scalar_matharray docstring_arrays (MathArray [] [5])
   \<and> number_validator docstring_arrays (Arr (MathArray [] [5])) = Inr (Num 5)
   \<and> [3] \<noteq> [1 :: nat]
   \<and> has_shape docstring_arrays [3] (Arr (MathArray [3] [2, - 1, 3]))
       = Inr (Arr (MathArray [3] [2, - 1, 3]))"
  using shape_one_means_scalar
    [of docstring_arrays 5 "MathArray [] [5]" "[3]" "Arr (MathArray [3] [2, - 1, 3])"
        "Arr (MathArray [3] [2, - 1, 3])"]
  by (simp add: docstring_arrays_def)

section \<open>The samplers: results\<close>

text \<open>
  C5. The docstring of \<^verbatim>\<open>gen_sample\<close> promises a number in the range
  \<open>[start, stop]\<close>. For the bounds \<open>- 2 ^ 1023\<close> and \<open>2 ^ 1023\<close>, both doubles, the
  constructor keeps \<open>start \<le> stop\<close>, but \<open>stop - start\<close> is \<open>2 ^ 1024\<close>, an
  infinity in floats: the sample is nan when the source draws 0 and an infinity when
  it draws 1/2, in neither case a number of the interval.
\<close>

theorem RealInterval_sample_overflows:
  "start (RealInterval (- (2 ^ 1023)) (2 ^ 1023)) = - (2 ^ 1023)
   \<and> stop (RealInterval (- (2 ^ 1023)) (2 ^ 1023)) = 2 ^ 1023
   \<and> fst (RealInterval_gen_sample (RealInterval (- (2 ^ 1023)) (2 ^ 1023)) least_draws) = NaN
   \<and> fst (RealInterval_gen_sample (RealInterval (- (2 ^ 1023)) (2 ^ 1023))
          \<lparr> floats = (\<lambda>k. 1 / 2), ints = (\<lambda>k low high. low) \<rparr>) = PosInf"
  by (simp add: least_draws_def RealInterval_gen_sample_def random_sample_def
      RealInterval_def Let_def float_sub_def to_float_def overflow_threshold_def)

text \<open>
  Away from overflow the samples are where the docstring says. Whatever the order of
  the bounds \<open>a\<close> and \<open>b\<close>, the constructed RealInterval has \<open>start \<le> stop\<close> (start
  is the smaller bound and stop the larger). When the bounds are doubles and their
  difference does not overflow, every sample drawn from a well-behaved random source is
  a finite number in \<open>[min a b, max a b]\<close>. When the difference overflows, the sample
  is an infinity or nan.
\<close>

theorem RealInterval_ordered_and_samples_in_range:
  "start (RealInterval a b) \<le> stop (RealInterval a b)
   \<and> start (RealInterval a b) = min a b
   \<and> stop (RealInterval a b) = max a b
   \<and> (well_behaved s \<and> \<bar>a\<bar> \<le> float_max \<and> \<bar>b\<bar> \<le> float_max
        \<and> max a b - min a b < overflow_threshold \<longrightarrow>
        (\<exists>v. fst (RealInterval_gen_sample (RealInterval a b) s) = Finite v
             \<and> min a b \<le> v \<and> v \<le> max a b))
   \<and> (well_behaved s \<and> overflow_threshold \<le> max a b - min a b \<longrightarrow>
        fst (RealInterval_gen_sample (RealInterval a b) s) = PosInf
        \<or> fst (RealInterval_gen_sample (RealInterval a b) s) = NaN)"
proof -
  have fine: "\<exists>v. fst (RealInterval_gen_sample (RealInterval a b) s) = Finite v
             \<and> min a b \<le> v \<and> v \<le> max a b"
    if wb: "well_behaved s" and a: "\<bar>a\<bar> \<le> float_max" and b: "\<bar>b\<bar> \<le> float_max"
      and width: "max a b - min a b < overflow_threshold"
  proof -
    from wb have u: "0 \<le> floats s 0" "floats s 0 < 1" by (simp_all add: well_behaved_def)
    have order: "min a b \<le> max a b" by simp
    from a b have lo: "\<bar>min a b\<bar> \<le> float_max" and hi: "\<bar>max a b\<bar> \<le> float_max"
      by (auto simp: min_def max_def)
    have "fst (RealInterval_gen_sample (RealInterval a b) s)
        = Finite (min a b + (max a b - min a b) * floats s 0)"
      using RealInterval_gen_sample_finite [of "RealInterval a b" s] order lo hi width u
      by (simp add: RealInterval_bounds)
    moreover from scale_in_interval [OF order u]
    have "min a b \<le> min a b + (max a b - min a b) * floats s 0"
      "min a b + (max a b - min a b) * floats s 0 \<le> max a b" by simp_all
    ultimately show ?thesis by blast
  qed
  have wide: "fst (RealInterval_gen_sample (RealInterval a b) s) = PosInf
        \<or> fst (RealInterval_gen_sample (RealInterval a b) s) = NaN"
    if wb: "well_behaved s" and width: "overflow_threshold \<le> max a b - min a b"
  proof -
    from wb have u: "0 \<le> floats s 0" by (simp add: well_behaved_def)
    show ?thesis
      using RealInterval_gen_sample_overflow [of "RealInterval a b" s] width u
      by (simp add: RealInterval_bounds)
  qed
  from fine wide show ?thesis
    by (simp add: RealInterval_bounds)
qed

theorem RealInterval_ordered_and_samples_in_range_witness:
  "well_behaved least_draws
   \<and> \<bar>4 :: real\<bar> \<le> float_max \<and> \<bar>- 2 :: real\<bar> \<le> float_max
   \<and> max 4 (- 2) - min 4 (- 2 :: real) < overflow_threshold
   \<and> start (RealInterval 4 (- 2)) = - 2 \<and> stop (RealInterval 4 (- 2)) = 4
   \<and> (\<exists>v. fst (RealInterval_gen_sample (RealInterval 4 (- 2)) least_draws) = Finite v
         \<and> min 4 (- 2) \<le> v \<and> v \<le> max 4 (- 2))
   \<and> overflow_threshold \<le> max (2 ^ 1023) (- (2 ^ 1023)) - min (2 ^ 1023) (- (2 ^ 1023))
   \<and> (fst (RealInterval_gen_sample (RealInterval (2 ^ 1023) (- (2 ^ 1023))) least_draws) = PosInf
      \<or> fst (RealInterval_gen_sample (RealInterval (2 ^ 1023) (- (2 ^ 1023))) least_draws) = NaN)"
proof -
  have wb: "well_behaved least_draws"
    by (simp add: well_behaved_def least_draws_def)
  have small: "\<bar>4 :: real\<bar> \<le> float_max" "\<bar>- 2 :: real\<bar> \<le> float_max"
    "max 4 (- 2) - min 4 (- 2 :: real) < overflow_threshold"
    using small_below_float_max float_max_below_threshold by simp_all
  have wide: "overflow_threshold \<le> max (2 ^ 1023) (- (2 ^ 1023)) - min (2 ^ 1023) (- (2 ^ 1023))"
    by (simp add: overflow_threshold_def)
  from RealInterval_ordered_and_samples_in_range [of 4 "- 2" least_draws]
    RealInterval_ordered_and_samples_in_range [of "2 ^ 1023" "- (2 ^ 1023)" least_draws]
    wb small wide
  show ?thesis by simp
qed

text \<open>
  C6. The class docstring has both \<open>start\<close> and \<open>stop\<close> included in the interval
  sampled from. For the bounds 0 and \<open>2 ^ 63\<close> the call
  \<^verbatim>\<open>randint(0, 2 ** 63 + 1)\<close> is out of bounds for int64: \<open>gen_sample\<close> raises
  ValueError at every state of the random source, and no integer of the range, either
  endpoint included, is ever returned.
\<close>

theorem IntegerRange_sample_raises_beyond_int64:
  "start (IntegerRange 0 (2 ^ 63)) = 0
   \<and> stop (IntegerRange 0 (2 ^ 63)) = 2 ^ 63
   \<and> fst (IntegerRange_gen_sample (IntegerRange 0 (2 ^ 63)) s) = Inl ValueError"
  by (simp add: IntegerRange_gen_sample_def randint_def IntegerRange_def Let_def)

text \<open>
  Within int64 the samples are where the docstring says. For an IntegerRange whose
  bounds \<open>a\<close> and \<open>b\<close> lie in \<open>[- 2 ^ 63, 2 ^ 63 - 1]\<close>, \<open>gen_sample\<close> on a
  well-behaved random source returns an integer in the closed range
  \<open>[min a b, max a b]\<close>, and every integer of that range, both endpoints included, is
  returned for some well-behaved state of the source. With a bound outside that span
  every call raises numpy's ValueError.
\<close>

theorem IntegerRange_samples_cover_closed_range:
  "(- (2 ^ 63) \<le> min a b \<and> max a b < 2 ^ 63 \<longrightarrow>
      (well_behaved s \<longrightarrow>
         (\<exists>v. fst (IntegerRange_gen_sample (IntegerRange a b) s) = Inr v
              \<and> min a b \<le> v \<and> v \<le> max a b))
      \<and> (min a b \<le> v \<and> v \<le> max a b \<longrightarrow>
         (\<exists>s. well_behaved s \<and> fst (IntegerRange_gen_sample (IntegerRange a b) s) = Inr v)))
   \<and> (min a b < - (2 ^ 63) \<or> 2 ^ 63 \<le> max a b \<longrightarrow>
      fst (IntegerRange_gen_sample (IntegerRange a b) s) = Inl ValueError)"
proof -
  have lt: "min a b < max a b + 1" by (simp add: min_def max_def)
  then have nle: "\<not> max a b + 1 \<le> min a b" by linarith
  have sample: "fst (IntegerRange_gen_sample (IntegerRange a b) s)
      = Inr (ints s 0 (min a b) (max a b + 1))"
    if "- (2 ^ 63) \<le> min a b" "max a b < 2 ^ 63" for s
  proof -
    from that have "\<not> min a b < - (2 ^ 63)" "\<not> max a b + 1 > 2 ^ 63" by linarith+
    then show ?thesis
      by (simp only: IntegerRange_gen_sample_def randint_def IntegerRange_bounds nle if_False
          fst_conv)
  qed
  have within: "min a b \<le> ints s 0 (min a b) (max a b + 1)
      \<and> ints s 0 (min a b) (max a b + 1) \<le> max a b"
    if "well_behaved s"
  proof -
    from that lt have "min a b \<le> ints s 0 (min a b) (max a b + 1)
        \<and> ints s 0 (min a b) (max a b + 1) < max a b + 1"
      unfolding well_behaved_def by blast
    then show ?thesis by simp
  qed
  have reach: "\<exists>s. well_behaved s \<and> fst (IntegerRange_gen_sample (IntegerRange a b) s) = Inr v"
    if "- (2 ^ 63) \<le> min a b" "max a b < 2 ^ 63" "min a b \<le> v" "v \<le> max a b"
  proof -
    let ?s = "\<lparr> floats = (\<lambda>k. 0), ints = (\<lambda>k low high. if low \<le> v \<and> v < high then v else low) \<rparr>"
    have "well_behaved ?s" by (simp add: well_behaved_def)
    moreover have "fst (IntegerRange_gen_sample (IntegerRange a b) ?s) = Inr v"
      using that by (simp add: sample)
    ultimately show ?thesis by blast
  qed
  have outside: "fst (IntegerRange_gen_sample (IntegerRange a b) s) = Inl ValueError"
    if "min a b < - (2 ^ 63) \<or> 2 ^ 63 \<le> max a b"
  proof -
    from that have "min a b < - (2 ^ 63) \<or> max a b + 1 > 2 ^ 63" by linarith
    then show ?thesis
      by (auto simp only: IntegerRange_gen_sample_def randint_def IntegerRange_bounds
          if_True if_False fst_conv split: if_splits)
  qed
  from sample within reach outside show ?thesis by simp
qed

theorem IntegerRange_samples_cover_closed_range_witness:
  "well_behaved least_draws
   \<and> - (2 ^ 63) \<le> min 4 (- 2 :: int) \<and> max 4 (- 2 :: int) < 2 ^ 63
   \<and> fst (IntegerRange_gen_sample (IntegerRange 4 (- 2)) least_draws) = Inr (- 2)
   \<and> min 4 (- 2) \<le> (4 :: int) \<and> (4 :: int) \<le> max 4 (- 2)
   \<and> (\<exists>s. well_behaved s \<and> fst (IntegerRange_gen_sample (IntegerRange 4 (- 2)) s) = Inr 4)
   \<and> 2 ^ 63 \<le> max 0 (2 ^ 63 :: int)
   \<and> fst (IntegerRange_gen_sample (IntegerRange 0 (2 ^ 63)) least_draws) = Inl ValueError"
  using IntegerRange_samples_cover_closed_range [of 4 "- 2" least_draws 4]
    IntegerRange_samples_cover_closed_range [of 0 "2 ^ 63" least_draws 0]
  by (simp add: well_behaved_def least_draws_def IntegerRange_gen_sample_def randint_def
      IntegerRange_def Let_def)

text \<open>
  C9. A sample of a ComplexSector is the product of the modulus sample and
  \<open>exp (\<i> t)\<close> for the argument sample \<open>t\<close>, the modulus drawn first and the argument
  next. When the bounds are doubles and neither width overflows, it is
  \<open>r * exp (\<i> t)\<close> with \<open>r\<close> and \<open>t\<close> each linear in its own draw. For modulus
  \<open>[0, 1]\<close> and argument \<open>[- pi, pi]\<close> the sample is finite, its magnitude lies in
  \<open>[0, 1]\<close>, it is its magnitude times \<open>exp (\<i> t)\<close> for the sampled angle \<open>t\<close> in
  \<open>[- pi, pi]\<close>, and its principal argument lies in \<open>[- pi, pi]\<close> as well.
\<close>

theorem ComplexSector_sample_is_polar:
  "fst (ComplexSector_gen_sample self s') =
     (case (fst (RealInterval_gen_sample (modulus self) s'),
            fst (RealInterval_gen_sample (argument self)
                   (snd (RealInterval_gen_sample (modulus self) s')))) of
        (Finite r, Finite t) \<Rightarrow> FiniteC (complex_of_real r * exp (\<i> * complex_of_real t))
      | _ \<Rightarrow> NonFiniteC)
   \<and> (well_behaved s
     \<and> \<bar>m0\<bar> \<le> float_max \<and> \<bar>m1\<bar> \<le> float_max \<and> max m0 m1 - min m0 m1 < overflow_threshold
     \<and> \<bar>a0\<bar> \<le> float_max \<and> \<bar>a1\<bar> \<le> float_max \<and> max a0 a1 - min a0 a1 < overflow_threshold
     \<longrightarrow>
     fst (ComplexSector_gen_sample (ComplexSector (m0, m1) (a0, a1)) s) =
       FiniteC (complex_of_real (min m0 m1 + (max m0 m1 - min m0 m1) * floats s 0)
         * exp (\<i> * complex_of_real (min a0 a1 + (max a0 a1 - min a0 a1) * floats s 1))))
   \<and> (well_behaved s \<longrightarrow>
        (let t = - pi + (pi - (- pi)) * floats s 1;
             z = complex_of_real (floats s 0) * exp (\<i> * complex_of_real t)
         in fst (ComplexSector_gen_sample (ComplexSector (0, 1) (- pi, pi)) s) = FiniteC z
          \<and> 0 \<le> cmod z \<and> cmod z \<le> 1
          \<and> - pi \<le> t \<and> t \<le> pi \<and> z = complex_of_real (cmod z) * exp (\<i> * complex_of_real t)
          \<and> - pi \<le> Arg z \<and> Arg z \<le> pi))"
proof -
  have unit: "fst (ComplexSector_gen_sample (ComplexSector (0, 1) (- pi, pi)) s) = FiniteC z
          \<and> 0 \<le> cmod z \<and> cmod z \<le> 1
          \<and> - pi \<le> t \<and> t \<le> pi \<and> z = complex_of_real (cmod z) * exp (\<i> * complex_of_real t)
          \<and> - pi \<le> Arg z \<and> Arg z \<le> pi"
    if wb: "well_behaved s"
      and t: "t = - pi + (pi - (- pi)) * floats s 1"
      and z: "z = complex_of_real (floats s 0) * exp (\<i> * complex_of_real t)"
    for z t
  proof -
    from wb have u0: "0 \<le> floats s 0" "floats s 0 < 1" and u1: "0 \<le> floats s 1" "floats s 1 < 1"
      by (simp_all add: well_behaved_def)
    have le: "- pi \<le> pi" by simp
    have pi8: "pi \<le> float_max" "2 * pi < overflow_threshold"
      using pi_less_4 small_below_float_max float_max_below_threshold by linarith+
    have one: "\<bar>0 :: real\<bar> \<le> float_max" "\<bar>1 :: real\<bar> \<le> float_max"
      "max 0 1 - min 0 (1 :: real) < overflow_threshold"
      "\<bar>- pi\<bar> \<le> float_max" "\<bar>pi\<bar> \<le> float_max" "max (- pi) pi - min (- pi) pi < overflow_threshold"
      using pi8 small_below_float_max float_max_below_threshold by (simp_all add: min_def max_def)
    have sample: "fst (ComplexSector_gen_sample (ComplexSector (0, 1) (- pi, pi)) s) = FiniteC z"
      using ComplexSector_polar [OF wb one] unfolding z t by (simp add: min_def max_def)
    have cm: "cmod z = floats s 0"
      unfolding z using u0 by (simp only: cmod_polar)
    from scale_in_interval [OF le u1] have "- pi \<le> t" "t \<le> pi"
      unfolding t by simp_all
    moreover have "- pi \<le> Arg z" "Arg z \<le> pi"
      using Arg_bounded [of z] by simp_all
    moreover have "z = complex_of_real (cmod z) * exp (\<i> * complex_of_real t)"
      unfolding cm by (rule z)
    ultimately show ?thesis
      using u0 cm sample by simp
  qed
  show ?thesis
    unfolding Let_def
    using ComplexSector_gen_sample_value [of self s'] ComplexSector_polar [of s m0 m1 a0 a1]
      unit [OF _ refl refl]
    by blast
qed

theorem ComplexSector_sample_is_polar_witness:
  "well_behaved least_draws
   \<and> fst (ComplexSector_gen_sample (ComplexSector (0, 1) (- pi, pi)) least_draws) = FiniteC 0
   \<and> cmod (complex_of_real (floats least_draws 0)
        * exp (\<i> * complex_of_real (- pi + (pi - (- pi)) * floats least_draws 1))) \<le> 1"
proof -
  have wb: "well_behaved least_draws"
    by (simp add: well_behaved_def least_draws_def)
  have zero: "complex_of_real (floats least_draws 0)
        * exp (\<i> * complex_of_real (- pi + (pi - (- pi)) * floats least_draws 1)) = 0"
    by (simp add: least_draws_def)
  from ComplexSector_sample_is_polar [of _ _ least_draws 0 1 "- pi" pi] wb
  have "fst (ComplexSector_gen_sample (ComplexSector (0, 1) (- pi, pi)) least_draws)
      = FiniteC (complex_of_real (floats least_draws 0)
        * exp (\<i> * complex_of_real (- pi + (pi - (- pi)) * floats least_draws 1)))"
    and "cmod (complex_of_real (floats least_draws 0)
        * exp (\<i> * complex_of_real (- pi + (pi - (- pi)) * floats least_draws 1))) \<le> 1"
    unfolding Let_def by blast+
  with wb zero show ?thesis by simp
qed

text \<open>
  C4. Let \<open>A\<close>, \<open>B\<close>, \<open>C\<close> be the coefficient arrays of shape
  \<open>(output_dim, num_terms, input_dim)\<close> that \<open>gen_sample\<close> computes from its three
  successive draws on the source state \<open>s\<close>. The function it returns, called with
  \<open>input_dim\<close> arguments, has as component \<open>i\<close> the number
  \<open>center + amplitude / num_terms * (\<Sum>j k. A i j k * sin (B i j k * x k + C i j k))\<close>;
  it returns the vector of these components, or the bare number when \<open>output_dim\<close>
  is 1.
\<close>

theorem RandomFunction_sample_computes_sine_sum:
  assumes "schema_config self" and "length args = input_dim self"
  shows "(let N = output_dim self * num_terms self * input_dim self;
              idx = (\<lambda>i j k. (i * num_terms self + j) * input_dim self + k);
              A = (\<lambda>i j k. floats s (idx i j k) / 2 + 0.5);
              B = (\<lambda>i j k. 2 * pi * (floats s (N + idx i j k) - 0.5));
              C = (\<lambda>i j k. 2 * pi * floats s (2 * N + idx i j k));
              y = (\<lambda>i. center self + amplitude self / real (num_terms self)
                     * (\<Sum>j<num_terms self. \<Sum>k<input_dim self.
                          A i j k * sin (B i j k * args ! k + C i j k)))
          in fst (fst (RandomFunction_gen_sample self s) args s') =
               Inr (if output_dim self = 1 then Scalar (y 0)
                    else Vector (map y [0..<output_dim self])))"
proof -
  from assms have pos: "0 < output_dim self" by (simp add: schema_config_def)
  show ?thesis
    unfolding RandomFunction_gen_sample_table Let_def
    using RandomFunction_f_table [OF assms(2) pos, unfolded Let_def]
    by simp
qed

theorem RandomFunction_sample_computes_sine_sum_witness:
  "schema_config \<lparr> input_dim = 1, output_dim = 1, num_terms = 3, center = 0, amplitude = 10 \<rparr>
   \<and> length [1 / 2 :: real] = input_dim
        \<lparr> input_dim = 1, output_dim = 1, num_terms = 3, center = 0, amplitude = 10 \<rparr>
   \<and> fst (fst (RandomFunction_gen_sample
        \<lparr> input_dim = 1, output_dim = 1, num_terms = 3, center = 0, amplitude = 10 \<rparr> least_draws)
        [1 / 2] least_draws) = Inr (Scalar (- 5))"
  using RandomFunction_sample_computes_sine_sum
    [of "\<lparr> input_dim = 1, output_dim = 1, num_terms = 3, center = 0, amplitude = 10 \<rparr>"
        "[1 / 2]" least_draws least_draws]
  by (simp add: schema_config_def least_draws_def Let_def)

text \<open>
  C7. \<open>gen_sample\<close> returns a function whatever the configuration (it has no arity to
  check and no error to raise); the function itself checks the number of arguments at
  each call. A call with a number of arguments other than \<open>input_dim\<close> raises the
  configuration error that names the expected and the received count, whatever the
  state of the random source at the call; a call of the same function with
  \<open>input_dim\<close> arguments returns a value.
\<close>

theorem RandomFunction_checks_arity_on_every_call:
  "(length args \<noteq> input_dim self \<longrightarrow>
      fst (RandomFunction_gen_sample self s) args s' =
        (Inl (ConfigError (''Expected '' @ str (input_dim self) @ '' arguments, but received ''
                @ str (length args))), s'))
   \<and> (schema_config self \<and> length args' = input_dim self \<longrightarrow>
      (\<exists>y. fst (RandomFunction_gen_sample self s) args' s' = (Inr y, s')))"
proof -
  have wrong: "fst (RandomFunction_gen_sample self s) args s' =
        (Inl (ConfigError (''Expected '' @ str (input_dim self) @ '' arguments, but received ''
                @ str (length args))), s')"
    if "length args \<noteq> input_dim self"
    using that
    by (simp add: RandomFunction_gen_sample_def RandomFunction_f_def Let_def split: prod.splits)
  have right: "\<exists>y. fst (RandomFunction_gen_sample self s) args' s' = (Inr y, s')"
    if "schema_config self" and len: "length args' = input_dim self"
  proof -
    from that have pos: "0 < output_dim self" by (simp add: schema_config_def)
    show ?thesis
      unfolding RandomFunction_gen_sample_table Let_def
      using RandomFunction_f_table [OF len pos, unfolded Let_def]
      by simp
  qed
  from wrong right show ?thesis by blast
qed

theorem RandomFunction_checks_arity_on_every_call_witness:
  "length [1.2, 3 :: real] \<noteq> input_dim
        \<lparr> input_dim = 1, output_dim = 1, num_terms = 3, center = 0, amplitude = 10 \<rparr>
   \<and> fst (RandomFunction_gen_sample
        \<lparr> input_dim = 1, output_dim = 1, num_terms = 3, center = 0, amplitude = 10 \<rparr> least_draws)
        [1.2, 3] least_draws
      = (Inl (ConfigError ''Expected 1 arguments, but received 2''), least_draws)
   \<and> schema_config \<lparr> input_dim = 1, output_dim = 1, num_terms = 3, center = 0, amplitude = 10 \<rparr>
   \<and> length [1 / 2 :: real] = input_dim
        \<lparr> input_dim = 1, output_dim = 1, num_terms = 3, center = 0, amplitude = 10 \<rparr>
   \<and> (\<exists>y. fst (RandomFunction_gen_sample
        \<lparr> input_dim = 1, output_dim = 1, num_terms = 3, center = 0, amplitude = 10 \<rparr> least_draws)
        [1 / 2] least_draws = (Inr y, least_draws))"
  using RandomFunction_checks_arity_on_every_call
    [of "[1.2, 3]" "\<lparr> input_dim = 1, output_dim = 1, num_terms = 3, center = 0, amplitude = 10 \<rparr>"
        least_draws least_draws "[1 / 2]"]
  by (simp add: str.simps digit_char_def schema_config_def)

text \<open>
  C8. A function returned by \<open>gen_sample\<close> is deterministic: called twice on the same
  arguments, at any two states \<open>s1\<close>, \<open>s2\<close> of the random source, it returns the same
  result, and a call leaves the random source as it found it (no draw is made).
\<close>

theorem RandomFunction_sample_is_deterministic:
  "fst (fst (RandomFunction_gen_sample self s) args s1)
     = fst (fst (RandomFunction_gen_sample self s) args s2)
   \<and> snd (fst (RandomFunction_gen_sample self s) args s1) = s1"
proof -
  obtain A B C where closure: "fst (RandomFunction_gen_sample self s) =
      RandomFunction_f self (output_dim self) (input_dim self) (num_terms self) A B C"
    unfolding RandomFunction_gen_sample_table Let_def by blast
  have same_result: "fst (RandomFunction_f self d0 d2 d1 A B C args s1)
      = fst (RandomFunction_f self d0 d2 d1 A B C args s2)" for d0 d1 d2
    by (simp add: RandomFunction_f_def Let_def)
  have no_draw: "snd (RandomFunction_f self d0 d2 d1 A B C args s1) = s1" for d0 d1 d2
    by (simp add: RandomFunction_f_def Let_def)
  from same_result no_draw show ?thesis
    unfolding closure by blast
qed

end
